theory Spec2Isabelle
  imports Complex_Main "HOL-Library.Sublist"
begin

section \<open>Python values and exceptions\<close>

text \<open>
  The helpers of \<^verbatim>\<open>densenet/utils.py\<close> are untyped Python. A field of the
  configuration tuple can hold any value (the defaults are \<^verbatim>\<open>None\<close>, the table
  stores integers, a caller may override with a float or a bool), so fields hold a
  \<open>pyval\<close>. A float is represented by the rational number it denotes; no arithmetic is
  done on these values here, they are only stored and compared.
\<close>

datatype pyval = PNone | PBool bool | PInt int | PFloat rat | PStr string

text \<open>
  Every \<^verbatim>\<open>raise\<close> of the modelled code, and every exception of the Python
  runtime on the modelled paths, is a value of \<open>error\<close>:
  \<^item> \<open>KeyError k\<close>: a dictionary subscript \<^verbatim>\<open>d[k]\<close> with \<open>k\<close> missing;
  \<^item> \<open>NotImplementedError msg\<close>: raised by \<^verbatim>\<open>get_model_params\<close>;
  \<^item> \<open>TypeError\<close>: \<^verbatim>\<open>f(**d)\<close> where a key of \<open>d\<close> is not a string;
  \<^item> \<open>ValueError_fields names\<close>: the \<^verbatim>\<open>ValueError\<close> of
    \<^verbatim>\<open>namedtuple._replace\<close>, "Got unexpected field names", with the names;
  \<^item> \<open>ValueError_max\<close>: \<^verbatim>\<open>max(())\<close>, the maximum of an empty sequence;
  \<^item> \<open>RuntimeError\<close>: a shape error of the tensor library;
  \<^item> \<open>ZeroDivisionError\<close>: a Python division by zero.
\<close>

datatype error =
    KeyError string
  | NotImplementedError string
  | TypeError
  | ValueError_fields "string list"
  | ValueError_max
  | RuntimeError
  | ZeroDivisionError

section \<open>Model parameters\<close>

subsection \<open>The configuration tuple\<close>

text \<open>
  \<^verbatim>\<open>GlobalParams = collections.namedtuple('GlobalParams', ['growth_rate',
  'num_init_features', 'bn_size', 'drop_rate', 'memory_efficient', 'num_classes',
  'image_size'])\<close>, every field defaulting to \<^verbatim>\<open>None\<close>.
\<close>

record GlobalParams =
  growth_rate :: pyval
  num_init_features :: pyval
  bn_size :: pyval
  drop_rate :: pyval
  memory_efficient :: pyval
  num_classes :: pyval
  image_size :: pyval

definition GlobalParams_fields :: "string list" where
  "GlobalParams_fields =
     [''growth_rate'', ''num_init_features'', ''bn_size'', ''drop_rate'',
      ''memory_efficient'', ''num_classes'', ''image_size'']"

text \<open>
  A Python \<^verbatim>\<open>dict\<close> is given by its items in insertion order (the keys of a
  dict are pairwise distinct). Keyword arguments are a dict with string keys.
\<close>

type_synonym pydict = "(pyval \<times> pyval) list"
type_synonym kwargs = "(string \<times> pyval) list"

text \<open>
  \<^verbatim>\<open>f(**d)\<close>: the call fails with a \<^verbatim>\<open>TypeError\<close> ("keywords must be
  strings") unless every key of \<open>d\<close> is a string.
\<close>

fun kwargs_of :: "pydict \<Rightarrow> error + kwargs" where
  "kwargs_of [] = Inr []"
| "kwargs_of ((PStr k, v) # d) =
     (case kwargs_of d of Inl e \<Rightarrow> Inl e | Inr kwds \<Rightarrow> Inr ((k, v) # kwds))"
| "kwargs_of ((_, v) # d) = Inl TypeError"

text \<open>\<^verbatim>\<open>kwds.pop(name, dflt)\<close>, the value it returns.\<close>

definition pop :: "kwargs \<Rightarrow> string \<Rightarrow> pyval \<Rightarrow> pyval" where
  "pop kwds name dflt = (case map_of kwds name of Some v \<Rightarrow> v | None \<Rightarrow> dflt)"

text \<open>
  The standard library's \<^verbatim>\<open>_replace\<close> of a namedtuple:
  \<^verbatim>\<open>
  def _replace(self, /, **kwds):
      result = self._make(_map(kwds.pop, field_names, self))
      if kwds:
          raise ValueError(f'Got unexpected field names: {list(kwds)!r}')
      return result
  \<close>
  Each field takes the keyword of its name when there is one and keeps its value
  otherwise; the keywords that no field has popped are the unexpected ones.
\<close>

definition replace :: "GlobalParams \<Rightarrow> kwargs \<Rightarrow> error + GlobalParams" where
  "replace self kwds =
     (let result =
            \<lparr> growth_rate = pop kwds ''growth_rate'' (growth_rate self),
              num_init_features = pop kwds ''num_init_features'' (num_init_features self),
              bn_size = pop kwds ''bn_size'' (bn_size self),
              drop_rate = pop kwds ''drop_rate'' (drop_rate self),
              memory_efficient = pop kwds ''memory_efficient'' (memory_efficient self),
              num_classes = pop kwds ''num_classes'' (num_classes self),
              image_size = pop kwds ''image_size'' (image_size self) \<rparr>;
          left = filter (\<lambda>name. name \<notin> set GlobalParams_fields) (map fst kwds)
      in if left \<noteq> [] then Inl (ValueError_fields left) else Inr result)"

subsection \<open>The coefficient tables\<close>

text \<open>
  \<^verbatim>\<open>densenet_params\<close>: growth rate, number of initial features and resolution
  per model name; the subscript \<^verbatim>\<open>params_dict[model_name]\<close> raises
  \<^verbatim>\<open>KeyError\<close> for a name that is not in the table.
\<close>

definition params_dict :: "(string \<times> (int \<times> int \<times> int)) list" where
  "params_dict =
     [(''densenet121'', (32, 64, 224)),
      (''densenet161'', (48, 96, 224)),
      (''densenet169'', (32, 64, 224)),
      (''densenet201'', (32, 64, 224))]"

definition densenet_params :: "string \<Rightarrow> error + (int \<times> int \<times> int)" where
  "densenet_params model_name =
     (case map_of params_dict model_name of
        None \<Rightarrow> Inl (KeyError model_name)
      | Some coefficients \<Rightarrow> Inr coefficients)"

definition blocks_dict :: "(string \<times> int list) list" where
  "blocks_dict =
     [(''densenet121'', [6, 12, 24, 16]),
      (''densenet161'', [6, 12, 36, 24]),
      (''densenet169'', [6, 12, 36, 32]),
      (''densenet201'', [6, 12, 48, 32])]"

text \<open>
  \<^verbatim>\<open>densenet(model_name, growth_rate, num_init_features, image_size=224, bn_size=4,
  drop_rate=0, num_classes=1000, memory_efficient=False)\<close>. The keyword defaults of
  the signature are supplied by the caller below.
\<close>

definition densenet ::
  "string \<Rightarrow> pyval \<Rightarrow> pyval \<Rightarrow> pyval \<Rightarrow> pyval \<Rightarrow> pyval \<Rightarrow> pyval \<Rightarrow> pyval
     \<Rightarrow> error + (int list \<times> GlobalParams)" where
  "densenet model_name growth_rate' num_init_features' image_size' bn_size' drop_rate'
       num_classes' memory_efficient' =
     (case map_of blocks_dict model_name of
        None \<Rightarrow> Inl (KeyError model_name)
      | Some blocks_args \<Rightarrow>
          Inr (blocks_args,
               \<lparr> growth_rate = growth_rate',
                 num_init_features = num_init_features',
                 bn_size = bn_size',
                 drop_rate = drop_rate',
                 memory_efficient = memory_efficient',
                 num_classes = num_classes',
                 image_size = image_size' \<rparr>))"

subsection \<open>The resolver\<close>

text \<open>
  \<^verbatim>\<open>if override_params:\<close> is false for \<^verbatim>\<open>None\<close> and for the empty dict.
\<close>

fun truthy :: "pydict option \<Rightarrow> bool" where
  "truthy None = False"
| "truthy (Some d) = (d \<noteq> [])"

fun items :: "pydict option \<Rightarrow> pydict" where
  "items None = []"
| "items (Some d) = d"

definition get_model_params ::
  "string \<Rightarrow> pydict option \<Rightarrow> error + (int list \<times> GlobalParams)" where
  "get_model_params model_name override_params =
     (if prefix ''densenet'' model_name then
        (case densenet_params model_name of
           Inl e \<Rightarrow> Inl e
         | Inr (g, n, s) \<Rightarrow>
             (case densenet model_name (PInt g) (PInt n) (PInt s)
                     (PInt 4) (PInt 0) (PInt 1000) (PBool False) of
                Inl e \<Rightarrow> Inl e
              | Inr (blocks_args, global_params) \<Rightarrow>
                  (if truthy override_params then
                     (case kwargs_of (items override_params) of
                        Inl e \<Rightarrow> Inl e
                      | Inr kwds \<Rightarrow>
                          (case replace global_params kwds of
                             Inl e \<Rightarrow> Inl e
                           | Inr global_params' \<Rightarrow> Inr (blocks_args, global_params')))
                   else Inr (blocks_args, global_params))))
      else Inl (NotImplementedError (''model name is not pre-defined: '' @ model_name)))"

section \<open>Checkpoint keys\<close>

subsection \<open>Regular expressions\<close>

text \<open>
  \<^verbatim>\<open>load_pretrained_weights\<close> renames the keys of a downloaded checkpoint with a
  regular expression of Python's \<^verbatim>\<open>re\<close> module. The constructs that its pattern
  uses are: literal text, a character class, a greedy repetition of a character class
  (\<^verbatim>\<open>*\<close> and \<^verbatim>\<open>+\<close>), concatenation, alternation, a capturing group, and
  the two anchors \<^verbatim>\<open>^\<close> and \<^verbatim>\<open>$\<close>. A key is a string of characters with
  codes below 256, where \<^verbatim>\<open>\d\<close> is the ten ASCII digits.
\<close>

datatype regex =
    Lit string
  | One "char \<Rightarrow> bool"
  | Star "char \<Rightarrow> bool"
  | Plus "char \<Rightarrow> bool"
  | Seq regex regex
  | Alt regex regex
  | Group nat regex
  | Bol
  | Eol

text \<open>
  A state of the matcher: the text consumed so far, the text still to read, and the
  text captured by each group. \<open>run p s\<close> lists the states in which \<open>p\<close> can end
  when started in \<open>s\<close>, in the order in which the backtracking matcher tries them:
  a greedy repetition tries the longest run first, an alternation its left branch first,
  and a concatenation every continuation of the first way to match its head before the
  second. The anchor \<^verbatim>\<open>$\<close> holds at the end of the text and just before a line feed
  that ends the text.
\<close>

type_synonym groups = "nat \<Rightarrow> string option"
type_synonym mstate = "string \<times> string \<times> groups"

definition newline :: char where
  "newline = CHR 0x0A"

fun run :: "regex \<Rightarrow> mstate \<Rightarrow> mstate list" where
  "run (Lit w) (d, r, g) = (if prefix w r then [(d @ w, drop (length w) r, g)] else [])"
| "run (One P) (d, r, g) =
     (case r of [] \<Rightarrow> [] | c # r' \<Rightarrow> if P c then [(d @ [c], r', g)] else [])"
| "run (Star P) (d, r, g) =
     map (\<lambda>n. (d @ take n r, drop n r, g)) (rev [0..<Suc (length (takeWhile P r))])"
| "run (Plus P) (d, r, g) =
     map (\<lambda>n. (d @ take n r, drop n r, g)) (rev [1..<Suc (length (takeWhile P r))])"
| "run (Seq a b) s = concat (map (run b) (run a s))"
| "run (Alt a b) s = run a s @ run b s"
| "run (Group i a) (d, r, g) =
     map (\<lambda>(d', r', g'). (d', r', g'(i \<mapsto> drop (length d) d'))) (run a (d, r, g))"
| "run Bol (d, r, g) = (if d = [] then [(d, r, g)] else [])"
| "run Eol (d, r, g) = (if r = [] \<or> r = [newline] then [(d, r, g)] else [])"

text \<open>
  \<^verbatim>\<open>pattern.match(key)\<close>: the match is tried at the start of the key only; the
  result is the first state in which the pattern ends, \<^verbatim>\<open>None\<close> when there is none.
\<close>

definition re_match :: "regex \<Rightarrow> string \<Rightarrow> groups option" where
  "re_match p s = (case run p ([], s, Map.empty) of [] \<Rightarrow> None | (d, r, g) # _ \<Rightarrow> Some g)"

subsection \<open>The pattern of the legacy keys\<close>

text \<open>
  \<^verbatim>\<open>.\<close> matches every character but the line feed.
\<close>

definition dot :: "char \<Rightarrow> bool" where
  "dot c = (c \<noteq> newline)"

definition digit :: "char \<Rightarrow> bool" where
  "digit c = (c \<in> set ''0123456789'')"

text \<open>
  \<^verbatim>\<open>r'^(.*denselayer\d+\.(?:norm|relu|conv))\.((?:[12])\.(?:weight|bias|running_mean|running_var))$'\<close>:
  \<open>layer_re\<close> is the inside of the first group, \<open>param_re\<close> the inside of the second.
\<close>

definition layer_re :: regex where
  "layer_re =
     Seq (Star dot) (Seq (Lit ''denselayer'') (Seq (Plus digit) (Seq (Lit ''.'')
       (Alt (Lit ''norm'') (Alt (Lit ''relu'') (Lit ''conv''))))))"

definition param_re :: regex where
  "param_re =
     Seq (One (\<lambda>c. c \<in> set ''12'')) (Seq (Lit ''.'')
       (Alt (Lit ''weight'') (Alt (Lit ''bias'')
         (Alt (Lit ''running_mean'') (Lit ''running_var'')))))"

definition pattern :: regex where
  "pattern = Seq Bol (Seq (Group 1 layer_re) (Seq (Lit ''.'') (Seq (Group 2 param_re) Eol)))"

subsection \<open>Renaming\<close>

text \<open>
  \<^verbatim>\<open>new_key = res.group(1) + res.group(2)\<close>. A group that did not take part in the
  match is \<^verbatim>\<open>None\<close>, and adding \<^verbatim>\<open>None\<close> to a string raises
  \<^verbatim>\<open>TypeError\<close>.
\<close>

definition new_key :: "groups \<Rightarrow> error + string" where
  "new_key res =
     (case (res 1, res 2) of (Some a, Some b) \<Rightarrow> Inr (a @ b) | _ \<Rightarrow> Inl TypeError)"

text \<open>
  The key under which the loop of \<^verbatim>\<open>load_pretrained_weights\<close> leaves the entry of
  \<open>key\<close>: the new key when the pattern matches, \<open>key\<close> itself otherwise.
\<close>

definition rewrite_key :: "string \<Rightarrow> error + string" where
  "rewrite_key key =
     (case re_match pattern key of None \<Rightarrow> Inr key | Some res \<Rightarrow> new_key res)"

text \<open>
  The loop over the keys of the checkpoint, on a state dict given by its items:
  \<^verbatim>\<open>
  for key in list(state_dict.keys()):
      res = pattern.match(key)
      if res:
          new_key = res.group(1) + res.group(2)
          state_dict[new_key] = state_dict[key]
          del state_dict[key]
  \<close>
  An assignment to a key of the dict replaces its value in place and appends a new key
  at the end.
\<close>

fun assign :: "'k \<Rightarrow> 'v \<Rightarrow> ('k \<times> 'v) list \<Rightarrow> ('k \<times> 'v) list" where
  "assign k v [] = [(k, v)]"
| "assign k v ((k', v') # d) = (if k' = k then (k, v) # d else (k', v') # assign k v d)"

definition rename :: "string \<Rightarrow> (string \<times> 'v) list \<Rightarrow> error + (string \<times> 'v) list" where
  "rename key state_dict =
     (case re_match pattern key of
        None \<Rightarrow> Inr state_dict
      | Some res \<Rightarrow>
          (case new_key res of
             Inl e \<Rightarrow> Inl e
           | Inr new \<Rightarrow>
               (case map_of state_dict key of
                  None \<Rightarrow> Inl (KeyError key)
                | Some v \<Rightarrow> Inr (filter (\<lambda>(k, _). k \<noteq> key) (assign new v state_dict)))))"

fun rename_keys :: "string list \<Rightarrow> (string \<times> 'v) list \<Rightarrow> error + (string \<times> 'v) list" where
  "rename_keys [] state_dict = Inr state_dict"
| "rename_keys (key # keys) state_dict =
     (case rename key state_dict of
        Inl e \<Rightarrow> Inl e
      | Inr state_dict' \<Rightarrow> rename_keys keys state_dict')"

definition rename_state_dict :: "(string \<times> 'v) list \<Rightarrow> error + (string \<times> 'v) list" where
  "rename_state_dict state_dict = rename_keys (map fst state_dict) state_dict"

section \<open>Training helpers\<close>

text \<open>
  Numbers of the training helpers are exact rationals: a Python integer is itself, and a
  float stands for the rational number it denotes. The rounding of a floating-point
  operation is not part of this model, so the development states nothing that depends
  on it. The learning-rate schedule \<^verbatim>\<open>args.lr * (0.1 ** (epoch // 30))\<close>, whose
  power is the C library's \<^verbatim>\<open>pow\<close> on doubles, is left out for that reason;
  the percentages of \<^verbatim>\<open>accuracy\<close>, which the library computes as the product
  of a \<^verbatim>\<open>float32\<close> tensor and a Python float, appear as the exact products,
  and the properties below are about its exception only.
\<close>

subsection \<open>Top-k accuracy\<close>

text \<open>
  \<^verbatim>\<open>output\<close> is a two-dimensional tensor of scores, one row per example and one
  column per class; \<^verbatim>\<open>target\<close> is the one-dimensional tensor of the labels;
  \<^verbatim>\<open>topk\<close> is a tuple of integers.
\<close>

record tensor2d =
  nrows :: nat
  ncols :: nat
  data :: "nat \<Rightarrow> nat \<Rightarrow> rat"

text \<open>
  \<^verbatim>\<open>output.topk(maxk, 1, True, True)\<close>, the indices for one row: the \<open>k\<close> columns
  with the largest scores, largest first (equal scores in the order of a stable sort).
\<close>

definition topk_indices :: "(nat \<Rightarrow> rat) \<Rightarrow> nat \<Rightarrow> nat \<Rightarrow> nat list" where
  "topk_indices row n k = take k (sort_key (\<lambda>j. - row j) [0..<n])"

text \<open>\<^verbatim>\<open>max(topk)\<close> raises \<^verbatim>\<open>ValueError\<close> on the empty tuple.\<close>

fun python_max :: "int list \<Rightarrow> error + int" where
  "python_max [] = Inl ValueError_max"
| "python_max (k # ks) = Inr (fold max ks k)"

text \<open>The slice \<^verbatim>\<open>xs[:k]\<close>; a negative \<open>k\<close> counts from the end.\<close>

definition slice_to :: "int \<Rightarrow> 'a list \<Rightarrow> 'a list" where
  "slice_to k xs = (if k < 0 then take (nat (int (length xs) + k)) xs else take (nat k) xs)"

text \<open>
  \<^verbatim>\<open>target.view(1, -1).expand_as(pred)\<close>: the labels as a row, repeated for each of
  the \<open>maxk\<close> rows of \<^verbatim>\<open>pred\<close>. The row must have one label per example, or a
  single label, which is then broadcast; the library raises otherwise.
\<close>

fun expand_as :: "int list \<Rightarrow> nat \<Rightarrow> error + int list" where
  "expand_as [t] b = Inr (replicate b t)"
| "expand_as target b = (if length target = b then Inr target else Inl RuntimeError)"

text \<open>
  The loop over \<^verbatim>\<open>topk\<close>. \<open>correct\<close> has one row per rank and one column per
  example. The quotient \<^verbatim>\<open>100.0 / batch_size\<close> is a Python division and raises
  \<^verbatim>\<open>ZeroDivisionError\<close> when the batch size is zero.
\<close>

fun accuracy_loop :: "bool list list \<Rightarrow> nat \<Rightarrow> int list \<Rightarrow> error + rat list" where
  "accuracy_loop correct batch_size [] = Inr []"
| "accuracy_loop correct batch_size (k # ks) =
     (let correct_k = of_nat (length (filter id (concat (slice_to k correct))))
      in if batch_size = 0 then Inl ZeroDivisionError
         else (case accuracy_loop correct batch_size ks of
                 Inl e \<Rightarrow> Inl e
               | Inr res \<Rightarrow> Inr (correct_k * (100 / of_nat batch_size) # res)))"

definition accuracy :: "tensor2d \<Rightarrow> int list \<Rightarrow> int list \<Rightarrow> error + rat list" where
  "accuracy output target topk =
     (case python_max topk of
        Inl e \<Rightarrow> Inl e
      | Inr maxk \<Rightarrow>
          (let batch_size = length target
           in if maxk < 0 \<or> int (ncols output) < maxk then Inl RuntimeError
              else
                (let pred = (\<lambda>i. topk_indices (data output i) (ncols output) (nat maxk))
                 in case expand_as target (nrows output) of
                      Inl e \<Rightarrow> Inl e
                    | Inr target' \<Rightarrow>
                        (let correct =
                               map (\<lambda>j. map (\<lambda>i. int (pred i ! j) = target' ! i)
                                          [0..<nrows output])
                                   [0..<nat maxk]
                         in accuracy_loop correct batch_size topk))))"

subsection \<open>The running average\<close>

text \<open>
  The four attributes of an \<^verbatim>\<open>AverageMeter\<close>. The attribute \<^verbatim>\<open>sum\<close> is the
  field \<open>sum'\<close>. The weight \<open>n\<close> of an update, and so \<^verbatim>\<open>count\<close>, is an integer.
\<close>

record AverageMeter =
  val :: rat
  avg :: rat
  sum' :: rat
  count :: int

definition reset :: "AverageMeter \<Rightarrow> AverageMeter" where
  "reset self = self\<lparr>val := 0, avg := 0, sum' := 0, count := 0\<rparr>"


text \<open>
  \<^verbatim>\<open>update(val, n)\<close>. The division \<^verbatim>\<open>self.sum / self.count\<close> raises
  \<^verbatim>\<open>ZeroDivisionError\<close> when the count is zero; the three assignments before it
  have been made by then, and the object is returned with the exception.
\<close>

definition update ::
  "AverageMeter \<Rightarrow> rat \<Rightarrow> int \<Rightarrow> error \<times> AverageMeter + AverageMeter" where
  "update self v n =
     (let self1 = self\<lparr>val := v\<rparr>;
          self2 = self1\<lparr>sum' := sum' self1 + v * of_int n\<rparr>;
          self3 = self2\<lparr>count := count self2 + n\<rparr>
      in if count self3 = 0 then Inl (ZeroDivisionError, self3)
         else Inr (self3\<lparr>avg := sum' self3 / of_int (count self3)\<rparr>))"


section \<open>Properties of the resolver\<close>

lemma kwargs_of_Inr: "kwargs_of d = Inr kwds \<Longrightarrow> d = map (\<lambda>(k, v). (PStr k, v)) kwds"
  by (induction d arbitrary: kwds rule: kwargs_of.induct) (auto split: sum.splits)

lemma kwargs_of_Inl: "kwargs_of d = Inl e \<Longrightarrow> e = TypeError"
  by (induction d rule: kwargs_of.induct) (auto split: sum.splits)

text \<open>
  Claim C1. For each of the four supported model names, \<^verbatim>\<open>get_model_params\<close>
  without overrides (\<^verbatim>\<open>None\<close> or the empty dict) returns four block layer counts and
  a configuration whose growth rate, number of initial features and image size are not
  \<^verbatim>\<open>None\<close> and are those of the coefficient table: 48, 96, 224 for
  \<^verbatim>\<open>densenet161\<close> and 32, 64, 224 for the other three. For
  \<^verbatim>\<open>densenet121\<close> the result is the layer counts 6, 12, 24, 16 and the
  configuration with growth rate 32, 64 initial features and image size 224 (the other
  fields are the defaults of \<^verbatim>\<open>densenet\<close>).
\<close>

theorem get_model_params_supported:
  assumes "model_name \<in> {''densenet121'', ''densenet161'', ''densenet169'', ''densenet201''}"
    and "override_params = None \<or> override_params = Some []"
  shows "(\<exists>blocks_args global_params.
            get_model_params model_name override_params = Inr (blocks_args, global_params)
          \<and> length blocks_args = 4
          \<and> growth_rate global_params \<noteq> PNone
          \<and> num_init_features global_params \<noteq> PNone
          \<and> image_size global_params \<noteq> PNone
          \<and> growth_rate global_params = PInt (if model_name = ''densenet161'' then 48 else 32)
          \<and> num_init_features global_params =
                PInt (if model_name = ''densenet161'' then 96 else 64)
          \<and> image_size global_params = PInt 224)
       \<and> get_model_params ''densenet121'' override_params =
            Inr ([6, 12, 24, 16],
                 \<lparr> growth_rate = PInt 32, num_init_features = PInt 64, bn_size = PInt 4,
                   drop_rate = PInt 0, memory_efficient = PBool False,
                   num_classes = PInt 1000, image_size = PInt 224 \<rparr>)"
  using assms
  by (auto simp: get_model_params_def densenet_params_def densenet_def params_dict_def
        blocks_dict_def)

theorem get_model_params_supported_witness:
  "\<exists>blocks_args global_params.
      get_model_params ''densenet161'' None = Inr (blocks_args, global_params)
    \<and> length blocks_args = 4
    \<and> growth_rate global_params = PInt 48
    \<and> num_init_features global_params = PInt 96
    \<and> image_size global_params = PInt 224"
  using get_model_params_supported [of "''densenet161''" None] by auto

text \<open>
  Claim C2, as amended. For every model name other than the four supported ones
  \<^verbatim>\<open>get_model_params\<close> fails, whatever the overrides, and returns nothing; for
  every such name that does not start with \<^verbatim>\<open>densenet\<close> the failure is the
  unsupported-model error, the \<^verbatim>\<open>NotImplementedError\<close> "model name is not
  pre-defined" with the name.
\<close>

theorem get_model_params_unsupported:
  assumes "model_name \<notin> {''densenet121'', ''densenet161'', ''densenet169'', ''densenet201''}"
  shows "(\<exists>e. get_model_params model_name override_params = Inl e)
       \<and> (\<not> prefix ''densenet'' model_name \<longrightarrow>
            get_model_params model_name override_params =
              Inl (NotImplementedError (''model name is not pre-defined: '' @ model_name)))"
  using assms
  by (simp add: get_model_params_def densenet_params_def params_dict_def)

theorem get_model_params_unsupported_witness:
  "get_model_params ''resnet50'' None =
     Inl (NotImplementedError ''model name is not pre-defined: resnet50'')
 \<and> (\<exists>e. get_model_params ''densenet'' (Some [(PStr ''drop_rate'', PInt 0)]) = Inl e)"
  using get_model_params_unsupported [of "''resnet50''" None]
    get_model_params_unsupported [of "''densenet''" "Some [(PStr ''drop_rate'', PInt 0)]"]
  by simp

text \<open>
  The claim as first stated has every unsupported name fail with the unsupported-model
  error. The name \<^verbatim>\<open>densenet264\<close> starts with \<^verbatim>\<open>densenet\<close>, so it passes
  the test of \<^verbatim>\<open>get_model_params\<close>, and it is not in the coefficient table: what the
  call raises is the \<^verbatim>\<open>KeyError\<close> of the subscript in
  \<^verbatim>\<open>densenet_params\<close>, not that error.
\<close>

theorem get_model_params_densenet264_counterexample:
  "get_model_params ''densenet264'' None = Inl (KeyError ''densenet264'')
 \<and> get_model_params ''densenet264'' None \<noteq>
     Inl (NotImplementedError ''model name is not pre-defined: densenet264'')"
  by (simp add: get_model_params_def densenet_params_def params_dict_def)

text \<open>
  Claim C3. For each supported model name, the override \<^verbatim>\<open>{'drop_rate': 0.5}\<close>
  gives a configuration whose \<^verbatim>\<open>drop_rate\<close> is 0.5 and whose six other fields are
  those of the configuration built without overrides; the layer counts are the same.
\<close>

theorem override_drop_rate:
  assumes "model_name \<in> {''densenet121'', ''densenet161'', ''densenet169'', ''densenet201''}"
  shows "\<exists>blocks_args global_params blocks_args' global_params'.
            get_model_params model_name None = Inr (blocks_args, global_params)
          \<and> get_model_params model_name (Some [(PStr ''drop_rate'', PFloat (1 / 2))]) =
              Inr (blocks_args', global_params')
          \<and> drop_rate global_params' = PFloat (1 / 2)
          \<and> growth_rate global_params' = growth_rate global_params
          \<and> num_init_features global_params' = num_init_features global_params
          \<and> bn_size global_params' = bn_size global_params
          \<and> memory_efficient global_params' = memory_efficient global_params
          \<and> num_classes global_params' = num_classes global_params
          \<and> image_size global_params' = image_size global_params
          \<and> blocks_args' = blocks_args"
  using assms
  by (auto simp: get_model_params_def densenet_params_def densenet_def params_dict_def
        blocks_dict_def replace_def pop_def GlobalParams_fields_def)

theorem override_drop_rate_witness:
  "get_model_params ''densenet169'' (Some [(PStr ''drop_rate'', PFloat (1 / 2))]) =
     Inr ([6, 12, 36, 32],
          \<lparr> growth_rate = PInt 32, num_init_features = PInt 64, bn_size = PInt 4,
            drop_rate = PFloat (1 / 2), memory_efficient = PBool False,
            num_classes = PInt 1000, image_size = PInt 224 \<rparr>)"
  using override_drop_rate [of "''densenet169''"]
  by (simp add: get_model_params_def densenet_params_def densenet_def params_dict_def
        blocks_dict_def replace_def pop_def GlobalParams_fields_def)

text \<open>
  Claim C4. For each supported model name and every override dict with a key that is
  not one of the seven fields of \<^verbatim>\<open>GlobalParams\<close>, \<^verbatim>\<open>get_model_params\<close>
  raises and returns no configuration: \<^verbatim>\<open>_replace\<close> raises
  \<^verbatim>\<open>ValueError\<close> with the unexpected names when all keys are strings, and the
  keyword call raises \<^verbatim>\<open>TypeError\<close> when a key is not a string.
\<close>

theorem unknown_override_key_fails:
  assumes "model_name \<in> {''densenet121'', ''densenet161'', ''densenet169'', ''densenet201''}"
    and "(key, v) \<in> set override_params"
    and "key \<notin> {PStr ''growth_rate'', PStr ''num_init_features'', PStr ''bn_size'',
                   PStr ''drop_rate'', PStr ''memory_efficient'', PStr ''num_classes'',
                   PStr ''image_size''}"
  shows "(\<exists>names. names \<noteq> []
            \<and> get_model_params model_name (Some override_params) =
                Inl (ValueError_fields names))
       \<or> get_model_params model_name (Some override_params) = Inl TypeError"
proof (cases "kwargs_of override_params")
  case (Inl e)
  then have "e = TypeError" by (rule kwargs_of_Inl)
  with Inl assms(1,2) show ?thesis
    by (auto simp: get_model_params_def densenet_params_def densenet_def params_dict_def
          blocks_dict_def)
next
  case (Inr kwds)
  then have "override_params = map (\<lambda>(k, v). (PStr k, v)) kwds" by (rule kwargs_of_Inr)
  with assms(2) obtain k where k: "key = PStr k" "(k, v) \<in> set kwds" by auto
  with assms(3) have "k \<notin> set GlobalParams_fields" by (auto simp: GlobalParams_fields_def)
  with k(2) have "k \<in> set (filter (\<lambda>name. name \<notin> set GlobalParams_fields) (map fst kwds))"
    by force
  then have "filter (\<lambda>name. name \<notin> set GlobalParams_fields) (map fst kwds) \<noteq> []"
    by (metis empty_iff list.set(1))
  with Inr assms(1,2) show ?thesis
    by (auto simp: get_model_params_def densenet_params_def densenet_def params_dict_def
          blocks_dict_def replace_def Let_def)
qed

theorem unknown_override_key_fails_witness:
  "get_model_params ''densenet121'' (Some [(PStr ''foo'', PInt 1)]) =
     Inl (ValueError_fields [''foo''])
 \<and> get_model_params ''densenet121'' (Some [(PInt 7, PInt 1)]) = Inl TypeError"
  using unknown_override_key_fails
          [of "''densenet121''" "PStr ''foo''" "PInt 1" "[(PStr ''foo'', PInt 1)]"]
    unknown_override_key_fails
          [of "''densenet121''" "PInt 7" "PInt 1" "[(PInt 7, PInt 1)]"]
  by (simp add: get_model_params_def densenet_params_def densenet_def params_dict_def
        blocks_dict_def replace_def pop_def GlobalParams_fields_def)

section \<open>Properties of the key rewrite\<close>

lemma in_run_Lit:
  "s' \<in> set (run (Lit w) (d, r, g)) \<longleftrightarrow> (\<exists>r'. r = w @ r' \<and> s' = (d @ w, r', g))"
  by (auto simp: prefix_def)

lemma in_run_One:
  "s' \<in> set (run (One P) (d, r, g)) \<longleftrightarrow> (\<exists>c r'. r = c # r' \<and> P c \<and> s' = (d @ [c], r', g))"
  by (cases r) auto

lemma take_le_takeWhile:
  "n \<le> length (takeWhile P r) \<Longrightarrow> \<forall>c\<in>set (take n r). P c"
proof -
  assume n: "n \<le> length (takeWhile P r)"
  have "take n (takeWhile P r @ dropWhile P r) = take n (takeWhile P r)"
    using n by (simp del: takeWhile_dropWhile_id)
  then have "take n r = take n (takeWhile P r)" by simp
  then have "set (take n r) \<subseteq> set (takeWhile P r)" by (metis set_take_subset)
  then show ?thesis by (auto dest: set_takeWhileD)
qed

lemma length_le_takeWhile:
  "\<forall>c\<in>set u. P c \<Longrightarrow> length u \<le> length (takeWhile P (u @ r'))"
  by simp

lemma star_splits:
  "(\<exists>n\<in>{lo..<Suc (length (takeWhile P r))}. s' = (d @ take n r, drop n r, g)) \<longleftrightarrow>
   (\<exists>u r'. r = u @ r' \<and> (\<forall>c\<in>set u. P c) \<and> lo \<le> length u \<and> s' = (d @ u, r', g))"
proof
  assume "\<exists>n\<in>{lo..<Suc (length (takeWhile P r))}. s' = (d @ take n r, drop n r, g)"
  then obtain n where n: "lo \<le> n" "n \<le> length (takeWhile P r)"
      "s' = (d @ take n r, drop n r, g)" by auto
  from n(2) have "\<forall>c\<in>set (take n r). P c" by (rule take_le_takeWhile)
  moreover have "n \<le> length r" using n(2) length_takeWhile_le [of P r] by simp
  then have "length (take n r) = n" by simp
  ultimately show "\<exists>u r'. r = u @ r' \<and> (\<forall>c\<in>set u. P c) \<and> lo \<le> length u \<and> s' = (d @ u, r', g)"
    using n(1,3) by (intro exI [of _ "take n r"] exI [of _ "drop n r"]) simp
next
  assume "\<exists>u r'. r = u @ r' \<and> (\<forall>c\<in>set u. P c) \<and> lo \<le> length u \<and> s' = (d @ u, r', g)"
  then obtain u r' where u: "r = u @ r'" "\<forall>c\<in>set u. P c" "lo \<le> length u" "s' = (d @ u, r', g)"
    by auto
  from u(2) have "length u \<le> length (takeWhile P (u @ r'))" by (rule length_le_takeWhile)
  with u show "\<exists>n\<in>{lo..<Suc (length (takeWhile P r))}. s' = (d @ take n r, drop n r, g)"
    by (intro bexI [of _ "length u"]) auto
qed

lemma in_run_Star:
  "s' \<in> set (run (Star P) (d, r, g)) \<longleftrightarrow>
   (\<exists>u r'. r = u @ r' \<and> (\<forall>c\<in>set u. P c) \<and> s' = (d @ u, r', g))"
proof -
  have "set (run (Star P) (d, r, g)) =
        (\<lambda>n. (d @ take n r, drop n r, g)) ` {0..<Suc (length (takeWhile P r))}"
    by (simp only: run.simps set_map set_rev set_upt)
  then have "s' \<in> set (run (Star P) (d, r, g)) \<longleftrightarrow>
      (\<exists>n\<in>{0..<Suc (length (takeWhile P r))}. s' = (d @ take n r, drop n r, g))"
    by (simp only: image_iff)
  also have "\<dots> \<longleftrightarrow> (\<exists>u r'. r = u @ r' \<and> (\<forall>c\<in>set u. P c) \<and> 0 \<le> length u \<and> s' = (d @ u, r', g))"
    by (rule star_splits)
  finally show ?thesis by simp
qed

lemma in_run_Plus:
  "s' \<in> set (run (Plus P) (d, r, g)) \<longleftrightarrow>
   (\<exists>u r'. r = u @ r' \<and> u \<noteq> [] \<and> (\<forall>c\<in>set u. P c) \<and> s' = (d @ u, r', g))"
proof -
  have "set (run (Plus P) (d, r, g)) =
        (\<lambda>n. (d @ take n r, drop n r, g)) ` {1..<Suc (length (takeWhile P r))}"
    by (simp only: run.simps set_map set_rev set_upt)
  then have "s' \<in> set (run (Plus P) (d, r, g)) \<longleftrightarrow>
      (\<exists>n\<in>{1..<Suc (length (takeWhile P r))}. s' = (d @ take n r, drop n r, g))"
    by (simp only: image_iff)
  also have "\<dots> \<longleftrightarrow> (\<exists>u r'. r = u @ r' \<and> (\<forall>c\<in>set u. P c) \<and> 1 \<le> length u \<and> s' = (d @ u, r', g))"
    by (rule star_splits)
  finally show ?thesis by (auto simp: Suc_le_eq)
qed

lemma in_run_Alt:
  "s' \<in> set (run (Alt a b) s) \<longleftrightarrow> s' \<in> set (run a s) \<or> s' \<in> set (run b s)"
  by auto

lemma in_run_Group:
  "s' \<in> set (run (Group i a) (d, r, g)) \<longleftrightarrow>
   (\<exists>d' r' g'. (d', r', g') \<in> set (run a (d, r, g)) \<and> s' = (d', r', g'(i \<mapsto> drop (length d) d')))"
  by (force simp: image_iff)

lemma in_run_Seq':
  "s' \<in> set (run (Seq a b) s) \<longleftrightarrow>
   (\<exists>d r g. (d, r, g) \<in> set (run a s) \<and> s' \<in> set (run b (d, r, g)))"
  by auto

lemma in_run_Alt3:
  "s' \<in> set (run (Alt (Lit a) (Alt (Lit b) (Lit c))) (d, r, g)) \<longleftrightarrow>
   (\<exists>w r'. w \<in> {a, b, c} \<and> r = w @ r' \<and> s' = (d @ w, r', g))"
  by (simp only: in_run_Alt in_run_Lit) blast

lemma in_run_Alt4:
  "s' \<in> set (run (Alt (Lit a) (Alt (Lit b) (Alt (Lit c) (Lit e)))) (d, r, g)) \<longleftrightarrow>
   (\<exists>w r'. w \<in> {a, b, c, e} \<and> r = w @ r' \<and> s' = (d @ w, r', g))"
  by (simp only: in_run_Alt in_run_Lit) blast

lemma in_run_param:
  "s' \<in> set (run param_re (d, r, g)) \<longleftrightarrow>
   (\<exists>c w r'. r = c # ''.'' @ w @ r' \<and> c \<in> set ''12''
       \<and> w \<in> {''weight'', ''bias'', ''running_mean'', ''running_var''}
       \<and> s' = (d @ c # ''.'' @ w, r', g))"
  unfolding param_re_def
  by (simp only: in_run_Seq' in_run_Alt4 in_run_One in_run_Lit) (auto)

lemma run_Seq_Lit:
  "s' \<in> set (run (Seq (Lit w) b) (d, r, g)) \<longleftrightarrow>
   (\<exists>r1. r = w @ r1 \<and> s' \<in> set (run b (d @ w, r1, g)))"
  by (simp only: in_run_Seq' in_run_Lit) blast

lemma run_Seq_One:
  "s' \<in> set (run (Seq (One P) b) (d, r, g)) \<longleftrightarrow>
   (\<exists>c r1. r = c # r1 \<and> P c \<and> s' \<in> set (run b (d @ [c], r1, g)))"
  by (simp only: in_run_Seq' in_run_One) blast

lemma run_Seq_Star:
  "s' \<in> set (run (Seq (Star P) b) (d, r, g)) \<longleftrightarrow>
   (\<exists>u r1. r = u @ r1 \<and> (\<forall>c\<in>set u. P c) \<and> s' \<in> set (run b (d @ u, r1, g)))"
  by (simp only: in_run_Seq' in_run_Star) blast

lemma run_Seq_Plus:
  "s' \<in> set (run (Seq (Plus P) b) (d, r, g)) \<longleftrightarrow>
   (\<exists>u r1. r = u @ r1 \<and> u \<noteq> [] \<and> (\<forall>c\<in>set u. P c) \<and> s' \<in> set (run b (d @ u, r1, g)))"
  by (simp only: in_run_Seq' in_run_Plus) blast

lemma in_run_layer_shape:
  "s' \<in> set (run (Seq (Star P) (Seq (Lit a) (Seq (Plus Q) (Seq (Lit b)
                   (Alt (Lit x) (Alt (Lit y) (Lit z))))))) (d, r, g)) \<longleftrightarrow>
   (\<exists>u ds m r'. r = u @ a @ ds @ b @ m @ r'
       \<and> (\<forall>c\<in>set u. P c) \<and> ds \<noteq> [] \<and> (\<forall>c\<in>set ds. Q c)
       \<and> m \<in> {x, y, z}
       \<and> s' = (d @ u @ a @ ds @ b @ m, r', g))"
proof -
  have "s' \<in> set (run (Seq (Star P) (Seq (Lit a) (Seq (Plus Q) (Seq (Lit b)
                   (Alt (Lit x) (Alt (Lit y) (Lit z))))))) (d, r, g)) \<longleftrightarrow>
    (\<exists>u r1. r = u @ r1 \<and> (\<forall>c\<in>set u. P c) \<and>
      (\<exists>r2. r1 = a @ r2 \<and>
        (\<exists>ds r3. r2 = ds @ r3 \<and> ds \<noteq> [] \<and> (\<forall>c\<in>set ds. Q c) \<and>
          (\<exists>r4. r3 = b @ r4 \<and>
            (\<exists>m r'. m \<in> {x, y, z} \<and> r4 = m @ r' \<and>
               s' = (d @ u @ a @ ds @ b @ m, r', g))))))"
    by (simp only: run_Seq_Star run_Seq_Lit run_Seq_Plus in_run_Alt3 append_assoc)
  also have "\<dots> \<longleftrightarrow> (\<exists>u ds m r'. r = u @ a @ ds @ b @ m @ r'
       \<and> (\<forall>c\<in>set u. P c) \<and> ds \<noteq> [] \<and> (\<forall>c\<in>set ds. Q c)
       \<and> m \<in> {x, y, z}
       \<and> s' = (d @ u @ a @ ds @ b @ m, r', g))"
    by (rule iffI; elim exE conjE; hypsubst; intro exI conjI; (rule refl | assumption)?)
  finally show ?thesis .
qed

lemma in_run_layer:
  "s' \<in> set (run layer_re (d, r, g)) \<longleftrightarrow>
   (\<exists>u ds m r'. r = u @ ''denselayer'' @ ds @ ''.'' @ m @ r'
       \<and> (\<forall>c\<in>set u. dot c) \<and> ds \<noteq> [] \<and> (\<forall>c\<in>set ds. digit c)
       \<and> m \<in> {''norm'', ''relu'', ''conv''}
       \<and> s' = (d @ u @ ''denselayer'' @ ds @ ''.'' @ m, r', g))"
  unfolding layer_re_def by (rule in_run_layer_shape)

lemma run_Seq_Bol:
  "s' \<in> set (run (Seq Bol b) (d, r, g)) \<longleftrightarrow> d = [] \<and> s' \<in> set (run b (d, r, g))"
  by simp

lemma run_Seq_Group:
  "s' \<in> set (run (Seq (Group i a) b) (d, r, g)) \<longleftrightarrow>
   (\<exists>d1 r1 g1. (d1, r1, g1) \<in> set (run a (d, r, g))
       \<and> s' \<in> set (run b (d1, r1, g1(i \<mapsto> drop (length d) d1))))"
  by (simp only: in_run_Seq' in_run_Group) blast

lemma in_run_Eol:
  "s' \<in> set (run Eol (d, r, g)) \<longleftrightarrow> (r = [] \<or> r = [newline]) \<and> s' = (d, r, g)"
  by auto

lemma in_run_pattern_shape:
  "s' \<in> set (run (Seq Bol (Seq (Group i A) (Seq (Lit p) (Seq (Group j B) Eol)))) ([], key, g)) \<longleftrightarrow>
   (\<exists>d1 r1 g1. (d1, r1, g1) \<in> set (run A ([], key, g)) \<and>
      (\<exists>r2. r1 = p @ r2 \<and>
        (\<exists>d2 r3 g2. (d2, r3, g2) \<in> set (run B (d1 @ p, r2, g1(i \<mapsto> drop (length ([]::string)) d1))) \<and>
           (r3 = [] \<or> r3 = [newline]) \<and>
           s' = (d2, r3, g2(j \<mapsto> drop (length (d1 @ p)) d2)))))"
  by (simp only: run_Seq_Bol run_Seq_Group run_Seq_Lit in_run_Eol simp_thms)

lemma in_run_layer':
  "(d', r', g') \<in> set (run layer_re (d, r, g)) \<longleftrightarrow>
   (\<exists>u ds m. r = u @ ''denselayer'' @ ds @ ''.'' @ m @ r'
       \<and> (\<forall>c\<in>set u. dot c) \<and> ds \<noteq> [] \<and> (\<forall>c\<in>set ds. digit c)
       \<and> m \<in> {''norm'', ''relu'', ''conv''}
       \<and> d' = d @ u @ ''denselayer'' @ ds @ ''.'' @ m \<and> g' = g)"
  unfolding in_run_layer by (simp only: prod.inject) blast

lemma in_run_param':
  "(d', r', g') \<in> set (run param_re (d, r, g)) \<longleftrightarrow>
   (\<exists>c w. r = c # ''.'' @ w @ r' \<and> c \<in> set ''12''
       \<and> w \<in> {''weight'', ''bias'', ''running_mean'', ''running_var''}
       \<and> d' = d @ c # ''.'' @ w \<and> g' = g)"
  unfolding in_run_param by (simp only: prod.inject) blast

lemma pattern_sound:
  assumes "(d', r', g') \<in> set (run pattern ([], key, g))"
  shows "\<exists>u ds m c w.
       key = (u @ ''denselayer'' @ ds @ ''.'' @ m) @ ''.'' @ (c # ''.'' @ w) @ r'
     \<and> (\<forall>x\<in>set u. dot x) \<and> ds \<noteq> [] \<and> (\<forall>x\<in>set ds. digit x)
     \<and> m \<in> {''norm'', ''relu'', ''conv''}
     \<and> c \<in> set ''12''
     \<and> w \<in> {''weight'', ''bias'', ''running_mean'', ''running_var''}
     \<and> (r' = [] \<or> r' = [newline])
     \<and> g' = g(1 \<mapsto> u @ ''denselayer'' @ ds @ ''.'' @ m, 2 \<mapsto> c # ''.'' @ w)"
proof -
  from assms obtain d1 r2 g1 d2 g2 where
    a: "(d1, ''.'' @ r2, g1) \<in> set (run layer_re ([], key, g))" and
    b: "(d2, r', g2) \<in> set (run param_re (d1 @ ''.'', r2, g1(1 \<mapsto> drop (length ([]::string)) d1)))" and
    c: "r' = [] \<or> r' = [newline]" and
    e: "d' = d2" "g' = g2(2 \<mapsto> drop (length (d1 @ ''.'')) d2)"
    unfolding pattern_def in_run_pattern_shape prod.inject by blast
  from a obtain u ds m where l:
    "key = u @ ''denselayer'' @ ds @ ''.'' @ m @ ''.'' @ r2"
    "\<forall>c\<in>set u. dot c" "ds \<noteq> []" "\<forall>c\<in>set ds. digit c" "m \<in> {''norm'', ''relu'', ''conv''}"
    "d1 = [] @ u @ ''denselayer'' @ ds @ ''.'' @ m" "g1 = g"
    unfolding in_run_layer' by blast
  from b obtain c w where p:
    "r2 = c # ''.'' @ w @ r'" "c \<in> set ''12''"
    "w \<in> {''weight'', ''bias'', ''running_mean'', ''running_var''}"
    "d2 = (d1 @ ''.'') @ c # ''.'' @ w" "g2 = g1(1 \<mapsto> drop (length ([]::string)) d1)"
    unfolding in_run_param' by blast
  have g: "g' = g(1 \<mapsto> d1, 2 \<mapsto> c # ''.'' @ w)"
    unfolding e(2) p(4,5) l(7) by simp
  have k: "key = d1 @ ''.'' @ (c # ''.'' @ w) @ r'"
    unfolding l(1) l(6) p(1) by (simp only: append_assoc append_Nil append_Cons)
  show ?thesis
    apply (rule exI [of _ u], rule exI [of _ ds], rule exI [of _ m], rule exI [of _ c], rule exI [of _ w])
    using l(2-5) p(2,3) c g k unfolding l(6) append_Nil by (intro conjI)
qed



lemma rewrite_key_matched:
  assumes "run pattern ([], key, Map.empty) = (d', r', g') # rest"
  shows "\<exists>u ds m c w.
       key = (u @ ''denselayer'' @ ds @ ''.'' @ m) @ ''.'' @ (c # ''.'' @ w) @ r'
     \<and> (\<forall>x\<in>set u. dot x) \<and> ds \<noteq> [] \<and> (\<forall>x\<in>set ds. digit x)
     \<and> m \<in> {''norm'', ''relu'', ''conv''}
     \<and> c \<in> set ''12''
     \<and> w \<in> {''weight'', ''bias'', ''running_mean'', ''running_var''}
     \<and> (r' = [] \<or> r' = [newline])
     \<and> rewrite_key key = Inr ((u @ ''denselayer'' @ ds @ ''.'' @ m) @ (c # ''.'' @ w))"
proof -
  from assms have "(d', r', g') \<in> set (run pattern ([], key, Map.empty))" by simp
  from pattern_sound [OF this] obtain u ds m c w where s:
    "key = (u @ ''denselayer'' @ ds @ ''.'' @ m) @ ''.'' @ (c # ''.'' @ w) @ r'"
    "\<forall>x\<in>set u. dot x" "ds \<noteq> []" "\<forall>x\<in>set ds. digit x"
    "m \<in> {''norm'', ''relu'', ''conv''}" "c \<in> set ''12''"
    "w \<in> {''weight'', ''bias'', ''running_mean'', ''running_var''}"
    "r' = [] \<or> r' = [newline]"
    "g' = Map.empty(1 \<mapsto> u @ ''denselayer'' @ ds @ ''.'' @ m, 2 \<mapsto> c # ''.'' @ w)"
    by - (elim exE conjE, rule that; assumption)
  from assms have "re_match pattern key = Some g'" by (simp add: re_match_def)
  with s(9) have r: "rewrite_key key = Inr ((u @ ''denselayer'' @ ds @ ''.'' @ m) @ (c # ''.'' @ w))"
    by (simp add: rewrite_key_def new_key_def)
  show ?thesis
    apply (rule exI [of _ u], rule exI [of _ ds], rule exI [of _ m], rule exI [of _ c],
        rule exI [of _ w])
    using s(1-8) r by (intro conjI)
qed

lemma rewrite_key_unmatched:
  assumes "run pattern ([], key, Map.empty) = []"
  shows "re_match pattern key = None" "rewrite_key key = Inr key"
  using assms by (simp_all add: re_match_def rewrite_key_def)






subsection \<open>The loop over the state dict\<close>

text \<open>
  \<open>rewrite_key\<close> never raises: both groups of the pattern take part in every match.
\<close>

lemma rewrite_key_total: "\<exists>k'. rewrite_key key = Inr k'"
proof (cases "run pattern ([], key, Map.empty)")
  case Nil
  then show ?thesis by (simp add: rewrite_key_unmatched)
next
  case (Cons s rest)
  obtain d' r' g' where "s = (d', r', g')" by (cases s)
  with Cons have "run pattern ([], key, Map.empty) = (d', r', g') # rest" by simp
  from rewrite_key_matched [OF this] show ?thesis by - (elim exE conjE, rule exI)
qed

lemma assign_fresh: "k \<notin> fst ` set d \<Longrightarrow> assign k v d = d @ [(k, v)]"
  by (induction d) auto

lemma rename_matched:
  assumes "re_match pattern key \<noteq> None" and "map_of d key = Some v"
    and "projr (rewrite_key key) \<notin> fst ` set d"
  shows "rename key d = Inr (filter (\<lambda>(k, _). k \<noteq> key) d @ [(projr (rewrite_key key), v)])"
proof -
  from assms(1) obtain res where res: "re_match pattern key = Some res" by auto
  from rewrite_key_total obtain k' where k': "rewrite_key key = Inr k'" by blast
  with res have n: "new_key res = Inr k'" by (simp add: rewrite_key_def)
  from assms(2) have "key \<in> fst ` set d" by (metis map_of_eq_None_iff option.distinct(1))
  with assms(3) k' have "k' \<noteq> key" by auto
  with assms(2,3) k' res n show ?thesis
    by (simp add: rename_def assign_fresh)
qed

lemma rename_unmatched: "re_match pattern key = None \<Longrightarrow> rename key d = Inr d"
  by (simp add: rename_def)

lemma map_of_filter_neq:
  "x \<noteq> k \<Longrightarrow> map_of (filter (\<lambda>(k', _). k' \<noteq> k) d) x = map_of d x"
  by (induction d) auto

lemma rename_keys_result:
  assumes "distinct ks" and "set ks \<subseteq> fst ` set d" and "distinct (map fst d)"
    and "distinct (map (\<lambda>k. projr (rewrite_key k)) (filter (\<lambda>k. re_match pattern k \<noteq> None) ks))"
    and "\<forall>k\<in>set ks. re_match pattern k \<noteq> None \<longrightarrow> projr (rewrite_key k) \<notin> fst ` set d"
  shows "rename_keys ks d =
     Inr (filter (\<lambda>(k, v). \<not> (k \<in> set ks \<and> re_match pattern k \<noteq> None)) d
          @ map (\<lambda>k. (projr (rewrite_key k), the (map_of d k)))
                (filter (\<lambda>k. re_match pattern k \<noteq> None) ks))"
  using assms
proof (induction ks arbitrary: d)
  case Nil
  then show ?case by simp
next
  case (Cons k ks)
  show ?case
  proof (cases "re_match pattern k = None")
    case True
    from Cons.prems True have
      "rename_keys ks d =
         Inr (filter (\<lambda>(k, v). \<not> (k \<in> set ks \<and> re_match pattern k \<noteq> None)) d
          @ map (\<lambda>k. (projr (rewrite_key k), the (map_of d k)))
                (filter (\<lambda>k. re_match pattern k \<noteq> None) ks))"
      by (intro Cons.IH) auto
    moreover have "filter (\<lambda>(x, v). \<not> (x \<in> set (k # ks) \<and> re_match pattern x \<noteq> None)) d
        = filter (\<lambda>(x, v). \<not> (x \<in> set ks \<and> re_match pattern x \<noteq> None)) d"
      using True by (intro filter_cong) auto
    ultimately show ?thesis using True by (simp add: rename_unmatched)
  next
    case False
    let ?nk = "projr (rewrite_key k)"
    let ?d1 = "filter (\<lambda>(x, _). x \<noteq> k) d @ [(?nk, the (map_of d k))]"
    from Cons.prems(2) obtain v where v: "map_of d k = Some v"
      by (metis list.set_intros(1) map_of_eq_None_iff not_Some_eq subsetD)
    from Cons.prems(5) False have fresh: "?nk \<notin> fst ` set d" by simp
    from rename_matched [OF False v fresh] v have r: "rename k d = Inr ?d1" by simp
    have k_in: "k \<in> fst ` set d" using Cons.prems(2) by simp
    have nk_ks: "?nk \<notin> set ks" using fresh Cons.prems(2) by auto
    have nk_k: "?nk \<noteq> k" using fresh k_in by auto
    have k_ks: "k \<notin> set ks" using Cons.prems(1) by simp
    have 1: "distinct ks" using Cons.prems(1) by simp
    have 2: "set ks \<subseteq> fst ` set ?d1" using Cons.prems(2) k_ks by force
    have 3: "distinct (map fst ?d1)" using Cons.prems(3) fresh by (auto simp: distinct_map_filter)
    have 4: "distinct (map (\<lambda>k. projr (rewrite_key k)) (filter (\<lambda>k. re_match pattern k \<noteq> None) ks))"
      using Cons.prems(4) False by simp
    have sub: "fst ` set ?d1 \<subseteq> insert ?nk (fst ` set d)" by auto
    have 5: "\<forall>x\<in>set ks. re_match pattern x \<noteq> None \<longrightarrow> projr (rewrite_key x) \<notin> fst ` set ?d1"
    proof (intro ballI impI)
      fix x assume x: "x \<in> set ks" "re_match pattern x \<noteq> None"
      with Cons.prems(5) have a: "projr (rewrite_key x) \<notin> fst ` set d" by simp
      from Cons.prems(4) False
      have "?nk \<notin> set (map (\<lambda>k. projr (rewrite_key k)) (filter (\<lambda>k. re_match pattern k \<noteq> None) ks))"
        by simp
      moreover from x
      have "projr (rewrite_key x) \<in> set (map (\<lambda>k. projr (rewrite_key k)) (filter (\<lambda>k. re_match pattern k \<noteq> None) ks))"
        by simp
      ultimately have "projr (rewrite_key x) \<noteq> ?nk" by metis
      with a sub show "projr (rewrite_key x) \<notin> fst ` set ?d1" by blast
    qed
    have m: "\<And>x. x \<in> set ks \<Longrightarrow> map_of ?d1 x = map_of d x"
    proof -
      fix x assume x: "x \<in> set ks"
      with k_ks nk_ks have "x \<noteq> k" "x \<noteq> ?nk" by auto
      then show "map_of ?d1 x = map_of d x"
        by (simp add: map_of_filter_neq map_add_def split: option.splits)
    qed
    have f: "filter (\<lambda>(x, v). \<not> (x \<in> set ks \<and> re_match pattern x \<noteq> None)) ?d1
        = filter (\<lambda>(x, v). \<not> (x \<in> set (k # ks) \<and> re_match pattern x \<noteq> None)) d
          @ [(?nk, the (map_of d k))]"
      using nk_ks False by (auto intro!: filter_cong)
    have g: "map (\<lambda>x. (projr (rewrite_key x), the (map_of ?d1 x)))
                (filter (\<lambda>k. re_match pattern k \<noteq> None) ks)
        = map (\<lambda>x. (projr (rewrite_key x), the (map_of d x)))
                (filter (\<lambda>k. re_match pattern k \<noteq> None) ks)"
      using m by (intro map_cong) auto
    from Cons.IH [OF 1 2 3 4 5] have
      "rename_keys ks ?d1 =
         Inr (filter (\<lambda>(x, v). \<not> (x \<in> set ks \<and> re_match pattern x \<noteq> None)) ?d1
          @ map (\<lambda>x. (projr (rewrite_key x), the (map_of ?d1 x)))
                (filter (\<lambda>k. re_match pattern k \<noteq> None) ks))" .
    with r f g False show ?thesis by simp
  qed
qed


text \<open>
  The loop as a whole, for a state dict in which no two entries are renamed to the same
  key and no new key is already a key: the entries whose keys do not match stay where
  they are, with their keys, and the renamed entries follow them, in their old order,
  each under its new key and with its old value.
\<close>

theorem rename_state_dict_result:
  assumes "distinct (map fst state_dict)"
    and "distinct (map (\<lambda>(k, v). projr (rewrite_key k))
                       (filter (\<lambda>(k, v). re_match pattern k \<noteq> None) state_dict))"
    and "\<forall>(k, v)\<in>set state_dict.
           re_match pattern k \<noteq> None \<longrightarrow> projr (rewrite_key k) \<notin> fst ` set state_dict"
  shows "rename_state_dict state_dict =
     Inr (filter (\<lambda>(k, v). re_match pattern k = None) state_dict
          @ map (\<lambda>(k, v). (projr (rewrite_key k), v))
                (filter (\<lambda>(k, v). re_match pattern k \<noteq> None) state_dict))"
proof -
  let ?M = "\<lambda>k. re_match pattern k \<noteq> None"
  let ?N = "\<lambda>k. projr (rewrite_key k)"
  let ?ks = "map fst state_dict"
  have fm: "filter ?M ?ks = map fst (filter (\<lambda>(k, v). ?M k) state_dict)"
    by (simp add: filter_map comp_def case_prod_unfold)
  have 4: "distinct (map ?N (filter ?M ?ks))"
    using assms(2) unfolding fm by (simp add: comp_def case_prod_unfold)
  have 5: "\<forall>k\<in>set ?ks. ?M k \<longrightarrow> ?N k \<notin> fst ` set state_dict"
  proof (intro ballI impI)
    fix k assume "k \<in> set ?ks" and m: "?M k"
    then obtain v where "(k, v) \<in> set state_dict" by auto
    with assms(3) m show "?N k \<notin> fst ` set state_dict" by blast
  qed
  have "rename_keys ?ks state_dict =
     Inr (filter (\<lambda>(k, v). \<not> (k \<in> set ?ks \<and> ?M k)) state_dict
          @ map (\<lambda>k. (?N k, the (map_of state_dict k))) (filter ?M ?ks))"
    by (rule rename_keys_result [OF assms(1) _ assms(1) 4 5]) simp
  moreover have "filter (\<lambda>(k, v). \<not> (k \<in> set ?ks \<and> ?M k)) state_dict
      = filter (\<lambda>(k, v). re_match pattern k = None) state_dict"
    by (intro filter_cong) force+
  moreover have "map (\<lambda>k. (?N k, the (map_of state_dict k))) (filter ?M ?ks)
      = map (\<lambda>(k, v). (?N k, v)) (filter (\<lambda>(k, v). ?M k) state_dict)"
    unfolding fm map_map
    using assms(1) by (intro map_cong) auto
  ultimately show ?thesis by (simp add: rename_state_dict_def)
qed

text \<open>A checkpoint of four entries, two of them with legacy keys.\<close>

lemma rename_state_dict_example:
  "rename_state_dict
     [(''features.conv0.weight'', 1::nat),
      (''features.denseblock1.denselayer1.norm.1.weight'', 2),
      (''features.denseblock1.denselayer1.conv.1.weight'', 3),
      (''classifier.bias'', 4)]
   = Inr [(''features.conv0.weight'', 1),
          (''classifier.bias'', 4),
          (''features.denseblock1.denselayer1.norm1.weight'', 2),
          (''features.denseblock1.denselayer1.conv1.weight'', 3)]"
  by (simp add: rename_state_dict_def rename_def re_match_def pattern_def layer_re_def
        param_re_def dot_def digit_def newline_def new_key_def)

section \<open>Properties of the training helpers\<close>

lemma fold_max_in: "fold max ks (k::int) \<in> set (k # ks)"
  by (induction ks arbitrary: k) (auto simp: max_def)

text \<open>
  Claim C7. When the batch size, the number of target labels, is zero, the accuracy
  computation raises \<^verbatim>\<open>ZeroDivisionError\<close>: nothing guards the division by the
  batch size. The call is a well-formed one: \<^verbatim>\<open>output\<close> has one row per label
  (none), and \<^verbatim>\<open>topk\<close> is not empty and asks for no more ranks than there are
  classes.
\<close>

theorem accuracy_zero_batch:
  assumes "length target = 0" and "nrows output = length target"
    and "topk \<noteq> []" and "\<forall>k\<in>set topk. 0 \<le> k \<and> k \<le> int (ncols output)"
  shows "accuracy output target topk = Inl ZeroDivisionError"
proof -
  from assms(3) obtain k ks where t: "topk = k # ks" by (cases topk) auto
  have "fold max ks k \<in> set topk" unfolding t by (rule fold_max_in)
  with assms(4) have m: "0 \<le> fold max ks k" "fold max ks k \<le> int (ncols output)" by auto
  from assms(1,2) have e: "target = []" "nrows output = 0" by auto
  show ?thesis
    using m by (simp add: accuracy_def t e Let_def)
qed

theorem accuracy_zero_batch_witness:
  "accuracy \<lparr>nrows = 0, ncols = 1000, data = (\<lambda>i j. 0)\<rparr> [] [1] = Inl ZeroDivisionError
 \<and> accuracy \<lparr>nrows = 0, ncols = 1000, data = (\<lambda>i j. 0)\<rparr> [] [1, 5] = Inl ZeroDivisionError"
  using accuracy_zero_batch [of "[]" "\<lparr>nrows = 0, ncols = 1000, data = (\<lambda>i j. 0)\<rparr>" "[1]"]
    accuracy_zero_batch [of "[]" "\<lparr>nrows = 0, ncols = 1000, data = (\<lambda>i j. 0)\<rparr>" "[1, 5]"]
  by simp

text \<open>
  Claim C8. From the reset state, \<^verbatim>\<open>update(4, 2)\<close> and then \<^verbatim>\<open>update(6, 2)\<close>
  leave the average (4 * 2 + 6 * 2) / 4 = 5; a \<^verbatim>\<open>reset\<close> after them puts the
  average, the value, the sum and the count back to 0.
\<close>

theorem AverageMeter_example:
  "\<exists>self1 self2.
      update (reset self) 4 2 = Inr self1 \<and> update self1 6 2 = Inr self2
    \<and> avg self2 = (4 * 2 + 6 * 2) / 4 \<and> avg self2 = 5
    \<and> avg (reset self2) = 0 \<and> val (reset self2) = 0
    \<and> sum' (reset self2) = 0 \<and> count (reset self2) = 0"
  by (simp add: update_def reset_def Let_def)




end
